theory Spec2Isabelle
  imports Complex_Main "HOL-Library.Sublist" "HOL-Library.Multiset" "HOL-Library.Log_Nat"
begin

section \<open>Python values\<close>

text \<open>
  A Python \<open>str\<close> is a sequence of Unicode code points, and \<open>len\<close> counts code points,
  so a string is a list of code-point numbers. \<open>ascii\<close> turns an ASCII literal into
  such a list.
\<close>

type_synonym pystr = "nat list"

definition ascii :: "string \<Rightarrow> pystr" where
  "ascii s = map of_char s"

text \<open>
  The characters \<open>str.strip()\<close> removes: those for which \<open>str.isspace()\<close> holds
  (U+0009..U+000D, U+001C..U+0020, U+0085, U+00A0, U+1680, U+2000..U+200A, U+2028,
  U+2029, U+202F, U+205F, U+3000).
\<close>

definition isspace :: "nat \<Rightarrow> bool" where
  "isspace c = ((9 \<le> c \<and> c \<le> 13) \<or> (28 \<le> c \<and> c \<le> 32) \<or> c = 133 \<or> c = 160
     \<or> c = 5760 \<or> (8192 \<le> c \<and> c \<le> 8202) \<or> c = 8232 \<or> c = 8233 \<or> c = 8239
     \<or> c = 8287 \<or> c = 12288)"

definition strip :: "pystr \<Rightarrow> pystr" where
  "strip s = rev (dropWhile isspace (rev (dropWhile isspace s)))"

text \<open>
  The exceptions that occur in the modelled code. The message is kept where the code
  builds or reads it.
\<close>

datatype py_exception =
    RequestException pystr
  | KeyError pystr
  | IndexError
  | TypeError
  | AttributeError
  | ValueError pystr
  | OverflowError
  | MemoryError
  | UnicodeEncodeError
  | OperationalError
  | DatabaseError
  | Exception pystr

text \<open>
  The decimal digits of an integer, and \<open>str(i)\<close> as the f-strings format \<open>{rating}\<close>
  and \<open>{limit}\<close>: CPython refuses to convert an \<open>int\<close> of more than 4300 digits (its
  default limit) with \<open>ValueError\<close>.
\<close>

fun digits10 :: "nat \<Rightarrow> pystr" where
  "digits10 n = (if n < 10 then [48 + n] else digits10 (n div 10) @ [48 + n mod 10])"

declare digits10.simps [simp del]

definition decimal :: "int \<Rightarrow> pystr" where
  "decimal i = (if i < 0 then 45 # digits10 (nat (- i)) else digits10 (nat i))"

definition str_int :: "int \<Rightarrow> py_exception + pystr" where
  "str_int i =
     (if 4300 < length (digits10 (nat \<bar>i\<bar>)) then
        Inl (ValueError (ascii
          ''Exceeds the limit (4300 digits) for integer string conversion; use sys.set_int_max_str_digits() to increase the limit''))
      else Inr (decimal i))"

text \<open>The signed 64-bit range: SQLite's \<open>INTEGER\<close> and CPython's index type.\<close>

definition int64 :: "int \<Rightarrow> bool" where
  "int64 i = (- (2 ^ 63) \<le> i \<and> i < 2 ^ 63)"

text \<open>
  \<open>s * n\<close> for a string: the count must fit the index type, a count below 1 gives
  the empty string, and the result must fit into memory; \<open>memory\<close> is the length of
  the longest string that can be allocated.
\<close>

definition repeat :: "nat \<Rightarrow> pystr \<Rightarrow> int \<Rightarrow> py_exception + pystr" where
  "repeat memory s n =
     (if \<not> int64 n then Inl OverflowError
      else if n \<le> 0 \<or> s = [] then Inr []
      else if memory < length s * nat n then Inl MemoryError
      else Inr (concat (replicate (nat n) s)))"

text \<open>
  A string can be encoded as UTF-8, as \<open>sqlite3\<close> does to bind it, unless it holds a
  surrogate code point (U+D800..U+DFFF).
\<close>

definition encodable :: "pystr \<Rightarrow> bool" where
  "encodable s = list_all (\<lambda>c. c < 55296 \<or> 57343 < c) s"


section \<open>The feedback store (utils/database.py)\<close>

text \<open>
  One row of the table \<open>feedback\<close>. \<open>rating\<close> and \<open>review_text\<close> are \<open>NOT NULL\<close>; the
  three generated columns are nullable, \<open>None\<close> being SQL \<open>NULL\<close>. \<open>timestamp\<close> is the
  value of \<open>CURRENT_TIMESTAMP\<close>, which has a resolution of one second: it is the number
  of seconds since a fixed epoch, and the order of these numbers is the order of the
  stored \<open>YYYY-MM-DD HH:MM:SS\<close> texts.
\<close>

record feedback =
  feedback_id :: int
  timestamp :: int
  rating :: int
  review_text :: pystr
  user_response :: "pystr option"
  admin_summary :: "pystr option"
  recommended_actions :: "pystr option"

text \<open>
  The database file: the rows in rowid order, and the counter that \<open>AUTOINCREMENT\<close>
  keeps in \<open>sqlite_sequence\<close> (the largest rowid ever assigned).
\<close>

record database =
  rows :: "feedback list"
  sqlite_sequence :: int

definition create_tables :: database where
  "create_tables = \<lparr>rows = [], sqlite_sequence = 0\<rparr>"

text \<open>
  \<open>insert_feedback\<close>: the row gets the next rowid and the current time \<open>now\<close>. The
  \<open>sqlite3\<close> module binds the five parameters in order and refuses a Python \<open>int\<close>
  outside the signed 64-bit range with \<open>OverflowError\<close> and a string that cannot be
  encoded with \<open>UnicodeEncodeError\<close>; SQLite refuses the insert (\<open>SQLITE_FULL\<close>, an
  \<open>OperationalError\<close>) once the largest rowid has been used. In all these cases nothing
  is written.
\<close>

definition bindable :: "pystr option \<Rightarrow> bool" where
  "bindable v = (case v of None \<Rightarrow> True | Some s \<Rightarrow> encodable s)"

definition insert_feedback ::
  "int \<Rightarrow> int \<Rightarrow> pystr \<Rightarrow> pystr option \<Rightarrow> pystr option \<Rightarrow> pystr option \<Rightarrow> database
     \<Rightarrow> py_exception + (int \<times> database)" where
  "insert_feedback now rating' review_text' user_response' admin_summary'
       recommended_actions' db =
     (if \<not> int64 rating' then Inl OverflowError
      else if \<not> (encodable review_text' \<and> bindable user_response'
                 \<and> bindable admin_summary' \<and> bindable recommended_actions') then
        Inl UnicodeEncodeError
      else if sqlite_sequence db \<ge> 2 ^ 63 - 1 then Inl OperationalError
      else
        let lastrowid = sqlite_sequence db + 1;
            row = \<lparr>feedback_id = lastrowid, timestamp = now, rating = rating',
                   review_text = review_text', user_response = user_response',
                   admin_summary = admin_summary',
                   recommended_actions = recommended_actions'\<rparr>
        in Inr (lastrowid, \<lparr>rows = rows db @ [row], sqlite_sequence = lastrowid\<rparr>))"

text \<open>
  \<open>ORDER BY timestamp DESC\<close>: SQLite sorts the rows, read in rowid order, by the key
  and leaves rows with equal keys in the order read (SQL itself leaves the order of
  ties open).
\<close>

definition order_by_timestamp_desc :: "feedback list \<Rightarrow> feedback list" where
  "order_by_timestamp_desc rs = sort_key (\<lambda>r. - timestamp r) rs"

definition get_all_feedback :: "database \<Rightarrow> feedback list" where
  "get_all_feedback db = order_by_timestamp_desc (rows db)"

text \<open>
  \<open>get_recent_feedback\<close>: the limit is written into the query text by an f-string.
  \<open>LIMIT n\<close> with a negative \<open>n\<close> puts no bound on the number of rows; a number
  outside the signed 64-bit range is not an integer to SQLite (\<open>datatype mismatch\<close>),
  which \<open>read_sql_query\<close> raises as \<open>DatabaseError\<close>.
\<close>

definition get_recent_feedback :: "int \<Rightarrow> database \<Rightarrow> py_exception + feedback list" where
  "get_recent_feedback limit db =
     (case str_int limit of
        Inl e \<Rightarrow> Inl e
      | Inr digits \<Rightarrow>
          if \<not> int64 limit then Inl DatabaseError
          else
            let sorted_rows = order_by_timestamp_desc (rows db)
            in Inr (if limit < 0 then sorted_rows else take (nat limit) sorted_rows))"

text \<open>
  Binary floating point. A double is written as a pair \<open>(m, k)\<close> of integers and
  stands for the number \<open>m * 2 ^ k\<close>. \<open>nearest_double a b\<close>, for \<open>b > 0\<close>, is the double
  nearest to \<open>a / b\<close> with ties to the even significand of 53 bits: what the division
  of two exactly represented integers gives, and what the conversion of a decimal text
  gives. The exponent range of doubles is not modelled; quotients of integers below
  \<open>2 ^ 63\<close> lie well inside it.
\<close>

type_synonym double = "int \<times> int"

definition valof :: "double \<Rightarrow> rat" where
  "valof d = of_int (fst d) * 2 powi (snd d)"

definition round_half_even :: "int \<Rightarrow> int \<Rightarrow> int" where
  "round_half_even n d =
     (let q = n div d; r = n mod d
      in if 2 * r < d then q else if d < 2 * r then q + 1 else if even q then q else q + 1)"

definition binade :: "int \<Rightarrow> int \<Rightarrow> int" where
  "binade a b =
     (let e = bitlen \<bar>a\<bar> - bitlen b
      in if (if 0 \<le> e then b * 2 ^ nat e \<le> \<bar>a\<bar> else b \<le> \<bar>a\<bar> * 2 ^ nat (- e)) then e
         else e - 1)"

definition nearest_double :: "int \<Rightarrow> int \<Rightarrow> double" where
  "nearest_double a b =
     (if a = 0 then (0, 0)
      else
        let k = binade a b - 52
        in (if 0 \<le> k then round_half_even a (b * 2 ^ nat k)
            else round_half_even (a * 2 ^ nat (- k)) b,
            k))"

text \<open>
  \<open>round(x, 2)\<close> on a float: the value is rounded, exactly and with ties to even, to
  two decimals, and the decimal result is converted back to the nearest double.
\<close>

definition round2 :: "double \<Rightarrow> double" where
  "round2 d =
     (let m = fst d; k = snd d;
          hundredths = (if 0 \<le> k then 100 * m * 2 ^ nat k
                        else round_half_even (100 * m) (2 ^ nat (- k)))
      in nearest_double hundredths 100)"

text \<open>
  \<open>SELECT AVG(rating)\<close>: \<open>NULL\<close> for an empty table, else the sum divided by the count
  in double arithmetic. The sum and the count enter the division exactly, as they do
  while they are below \<open>2 ^ 53\<close>.
\<close>

definition avg_rating :: "feedback list \<Rightarrow> double option" where
  "avg_rating rs =
     (if rs = [] then None
      else Some (nearest_double (sum_list (map rating rs)) (int (length rs))))"

text \<open>
  \<open>get_statistics\<close> at query time \<open>now\<close>. \<open>average_rating\<close> is the value of
  \<open>round(avg_rating, 2)\<close>, where \<open>avg_rating\<close> is the integer 0 when \<open>AVG\<close> gave \<open>NULL\<close> or
  zero. \<open>rating_distribution\<close> is the dictionary built from
  \<open>GROUP BY rating ORDER BY rating\<close>, as the list of its items in insertion order.
\<close>

record statistics =
  total_submissions :: nat
  average_rating :: rat
  rating_distribution :: "(int \<times> nat) list"
  recent_submissions_24h :: nat

definition group_by_rating :: "feedback list \<Rightarrow> (int \<times> nat) list" where
  "group_by_rating rs =
     map (\<lambda>v. (v, length (filter (\<lambda>r. rating r = v) rs))) (sort (remdups (map rating rs)))"

definition get_statistics :: "int \<Rightarrow> database \<Rightarrow> statistics" where
  "get_statistics now db =
     \<lparr>total_submissions = length (rows db),
      average_rating =
        (case avg_rating (rows db) of
           None \<Rightarrow> 0
         | Some d \<Rightarrow> if fst d = 0 then 0 else valof (round2 d)),
      rating_distribution = group_by_rating (rows db),
      recent_submissions_24h =
        length (filter (\<lambda>r. timestamp r \<ge> now - 86400) (rows db))\<rparr>"

text \<open>
  \<open>delete_feedback\<close>: \<open>rowcount\<close> is the number of rows the \<open>DELETE\<close> removed. An id
  outside the signed 64-bit range cannot be bound (\<open>OverflowError\<close>).
\<close>

definition delete_feedback :: "int \<Rightarrow> database \<Rightarrow> py_exception + (bool \<times> database)" where
  "delete_feedback feedback_id' db =
     (if \<not> int64 feedback_id' then Inl OverflowError
      else
        let rowcount = length (filter (\<lambda>r. feedback_id r = feedback_id') (rows db))
        in Inr (rowcount > 0,
                db\<lparr>rows := filter (\<lambda>r. feedback_id r \<noteq> feedback_id') (rows db)\<rparr>))"

definition clear_all_data :: "database \<Rightarrow> database" where
  "clear_all_data db = db\<lparr>rows := []\<rparr>"

text \<open>
  \<open>export_to_csv\<close>: the file that \<open>to_csv(index=False)\<close> writes, as the list of its
  records before quoting (the column names, then the cells of each row of the data
  frame), and the returned \<open>len(df)\<close>.
\<close>

datatype cell = Int_cell int | Text_cell pystr | Null_cell

definition text_cell :: "pystr option \<Rightarrow> cell" where
  "text_cell v = (case v of None \<Rightarrow> Null_cell | Some s \<Rightarrow> Text_cell s)"

definition columns :: "pystr list" where
  "columns = [ascii ''id'', ascii ''timestamp'', ascii ''rating'', ascii ''review_text'',
     ascii ''user_response'', ascii ''admin_summary'', ascii ''recommended_actions'']"

definition cells :: "feedback \<Rightarrow> cell list" where
  "cells r = [Int_cell (feedback_id r), Int_cell (timestamp r), Int_cell (rating r),
     Text_cell (review_text r), text_cell (user_response r), text_cell (admin_summary r),
     text_cell (recommended_actions r)]"

definition to_csv :: "feedback list \<Rightarrow> cell list list" where
  "to_csv df = map Text_cell columns # map cells df"

definition export_to_csv :: "database \<Rightarrow> cell list list \<times> nat" where
  "export_to_csv db = (let df = get_all_feedback db in (to_csv df, length df))"

text \<open>
  Store states are reached from the empty table by the writing operations, one at a
  time. An insert carries the clock reading at which it runs.
\<close>

datatype store_op =
    Insert int int pystr "pystr option" "pystr option" "pystr option"
  | Delete int
  | Clear

fun insert_time :: "store_op \<Rightarrow> int list" where
  "insert_time (Insert now _ _ _ _ _) = [now]"
| "insert_time _ = []"

fun apply_op :: "database \<Rightarrow> store_op \<Rightarrow> database" where
  "apply_op db (Insert now r t u a c) =
     (case insert_feedback now r t u a c db of Inl _ \<Rightarrow> db | Inr (_, db') \<Rightarrow> db')"
| "apply_op db (Delete i) =
     (case delete_feedback i db of Inl _ \<Rightarrow> db | Inr (_, db') \<Rightarrow> db')"
| "apply_op db Clear = clear_all_data db"

definition run :: "store_op list \<Rightarrow> database" where
  "run ops = foldl apply_op create_tables ops"

section \<open>The response generator (utils/llm_handler.py)\<close>

text \<open>
  The decoded JSON body of a response. A \<open>dict\<close> is the list of its items, with
  distinct keys.
\<close>

datatype json =
    JNull
  | JBool bool
  | JInt int
  | JFloat real
  | JStr pystr
  | JList "json list"
  | JDict "(pystr \<times> json) list"

text \<open>\<open>obj[key]\<close> for a string key, \<open>obj[0]\<close>, and \<open>obj.strip()\<close>, on a decoded value.\<close>

fun getitem :: "json \<Rightarrow> pystr \<Rightarrow> py_exception + json" where
  "getitem (JDict items) k =
     (case map_of items k of None \<Rightarrow> Inl (KeyError (39 # k @ [39])) | Some v \<Rightarrow> Inr v)"
| "getitem _ k = Inl TypeError"

fun getitem0 :: "json \<Rightarrow> py_exception + json" where
  "getitem0 (JList []) = Inl IndexError"
| "getitem0 (JList (x # _)) = Inr x"
| "getitem0 (JStr []) = Inl IndexError"
| "getitem0 (JStr (c # _)) = Inr (JStr [c])"
| "getitem0 (JDict _) = Inl (KeyError (ascii ''0''))"
| "getitem0 _ = Inl TypeError"

fun strip_method :: "json \<Rightarrow> py_exception + pystr" where
  "strip_method (JStr s) = Inr (strip s)"
| "strip_method _ = Inl AttributeError"

text \<open>\<open>result['choices'][0]['message']['content'].strip()\<close>\<close>

definition message_content :: "json \<Rightarrow> py_exception + pystr" where
  "message_content result =
     (case getitem result (ascii ''choices'') of Inl e \<Rightarrow> Inl e | Inr choices \<Rightarrow>
      (case getitem0 choices of Inl e \<Rightarrow> Inl e | Inr choice \<Rightarrow>
       (case getitem choice (ascii ''message'') of Inl e \<Rightarrow> Inl e | Inr message \<Rightarrow>
        (case getitem message (ascii ''content'') of Inl e \<Rightarrow> Inl e | Inr content \<Rightarrow>
           strip_method content))))"

record llm_handler =
  api_key :: pystr
  model :: pystr
  api_url :: pystr

text \<open>\<open>a or b\<close> on optional strings: \<open>None\<close> and the empty string are false.\<close>

fun py_or :: "pystr option \<Rightarrow> pystr option \<Rightarrow> pystr option" where
  "py_or (Some (c # cs)) b = Some (c # cs)"
| "py_or _ b = b"

text \<open>
  The constructor; \<open>getenv\<close> is the value of the environment variable
  \<open>OPENROUTER_API_KEY\<close>.
\<close>

definition LLMHandler ::
  "pystr option \<Rightarrow> pystr option \<Rightarrow> pystr option \<Rightarrow> py_exception + llm_handler" where
  "LLMHandler api_key' model' getenv =
     (case py_or api_key' getenv of
        Some (c # cs) \<Rightarrow>
          Inr \<lparr>api_key = c # cs,
               model = (case py_or model' (Some (ascii ''mistralai/mistral-7b-instruct:free''))
                        of Some m \<Rightarrow> m | None \<Rightarrow> []),
               api_url = ascii ''https://openrouter.ai/api/v1/chat/completions''\<rparr>
      | _ \<Rightarrow>
          Inl (ValueError
            (ascii ''No API key provided. Set OPENROUTER_API_KEY environment variable.'')))"

text \<open>
  What \<open>requests.post\<close> is called with. The endpoint gives, for a request, what
  \<open>post\<close>, \<open>raise_for_status\<close> and \<open>response.json()\<close> come to: an exception, or the
  decoded body.
\<close>

record request =
  url :: pystr
  authorization :: pystr
  content_type :: pystr
  request_model :: pystr
  messages :: "(pystr \<times> pystr) list"
  temperature :: real
  max_tokens :: int
  timeout :: int

type_synonym endpoint = "request \<Rightarrow> py_exception + json"

text \<open>
  \<open>_call_api\<close>. The last argument and the second result are the requests posted so
  far, in order.
\<close>

definition call_api ::
  "llm_handler \<Rightarrow> endpoint \<Rightarrow> pystr \<Rightarrow> real \<Rightarrow> int \<Rightarrow> request list
     \<Rightarrow> (py_exception + pystr) \<times> request list" where
  "call_api self post prompt temperature' max_tokens' posted =
     (let data = \<lparr>url = api_url self,
                   authorization = ascii ''Bearer '' @ api_key self,
                   content_type = ascii ''application/json'',
                   request_model = model self,
                   messages = [(ascii ''user'', prompt)],
                   temperature = temperature',
                   max_tokens = max_tokens',
                   timeout = 30\<rparr>
      in (case (case post data of Inl e \<Rightarrow> Inl e | Inr result \<Rightarrow> message_content result) of
            Inl (RequestException m) \<Rightarrow>
              Inl (Exception (ascii ''OpenRouter API request failed: '' @ m))
          | Inl (KeyError m) \<Rightarrow>
              Inl (Exception (ascii ''Unexpected API response format: '' @ m))
          | Inl e \<Rightarrow> Inl e
          | Inr response \<Rightarrow> Inr response,
          posted @ [data]))"

text \<open>
  The three generators. Each builds its prompt with an f-string before its \<open>try\<close>
  block, so an exception of \<open>str(rating)\<close> there is raised to the caller; inside the
  block every exception of \<open>_call_api\<close> is replaced by the fallback text.
\<close>

definition user_response_prompt :: "int \<Rightarrow> pystr \<Rightarrow> py_exception + pystr" where
  \<open>user_response_prompt rating' review_text' =
     (case str_int rating' of
        Inl e \<Rightarrow> Inl e
      | Inr stars \<Rightarrow> Inr (
          ascii ''You are a friendly customer service representative for a business. \<newline>''
          @ ascii ''A customer has left a '' @ stars
          @ ascii ''-star review with the following feedback:\<newline>\<newline>"''
          @ review_text'
          @ ascii ''"\<newline>\<newline>''
          @ ascii ''Generate a warm, empathetic, and professional response that:\<newline>''
          @ ascii ''1. Thanks them for their feedback\<newline>''
          @ ascii ''2. Acknowledges their specific points (positive or negative)\<newline>''
          @ ascii ''3. For negative reviews: Apologizes and shows commitment to improvement\<newline>''
          @ ascii ''4. For positive reviews: Expresses gratitude and encourages return visits\<newline>''
          @ ascii ''5. Is concise (2-3 sentences max)\<newline>\<newline>''
          @ ascii ''Keep the tone friendly and genuine. Do not use generic corporate language.''
          @ ascii ''\<newline>\<newline>Response:''))\<close>

definition generate_user_response ::
  "llm_handler \<Rightarrow> endpoint \<Rightarrow> int \<Rightarrow> pystr \<Rightarrow> request list
     \<Rightarrow> (py_exception + pystr) \<times> request list" where
  "generate_user_response self post rating' review_text' posted =
     (case user_response_prompt rating' review_text' of
        Inl e \<Rightarrow> (Inl e, posted)
      | Inr prompt \<Rightarrow>
          (case call_api self post prompt (7 / 10) 200 posted of
             (Inr response, posted') \<Rightarrow> (Inr response, posted')
           | (Inl e, posted') \<Rightarrow>
               (case str_int rating' of
                  Inl e' \<Rightarrow> (Inl e', posted')
                | Inr stars \<Rightarrow>
                    (Inr (ascii ''Thank you for your '' @ stars
                          @ ascii ''-star review! We appreciate your feedback and will use it to improve our service.''),
                     posted'))))"

definition admin_summary_prompt :: "int \<Rightarrow> pystr \<Rightarrow> py_exception + pystr" where
  \<open>admin_summary_prompt rating' review_text' =
     (case str_int rating' of
        Inl e \<Rightarrow> Inl e
      | Inr stars \<Rightarrow> Inr (
          ascii ''Summarize this '' @ stars
          @ ascii ''-star customer review in 1-2 sentences for a manager's dashboard. \<newline>''
          @ ascii ''Focus on the key points and overall sentiment.\<newline>\<newline>''
          @ ascii ''Review: "'' @ review_text' @ ascii ''"\<newline>\<newline>Summary:''))\<close>

definition generate_admin_summary ::
  "llm_handler \<Rightarrow> endpoint \<Rightarrow> int \<Rightarrow> pystr \<Rightarrow> request list
     \<Rightarrow> (py_exception + pystr) \<times> request list" where
  "generate_admin_summary self post rating' review_text' posted =
     (case admin_summary_prompt rating' review_text' of
        Inl e \<Rightarrow> (Inl e, posted)
      | Inr prompt \<Rightarrow>
          (case call_api self post prompt (3 / 10) 150 posted of
             (Inr response, posted') \<Rightarrow> (Inr response, posted')
           | (Inl e, posted') \<Rightarrow>
               (case str_int rating' of
                  Inl e' \<Rightarrow> (Inl e', posted')
                | Inr stars \<Rightarrow>
                    (Inr (if rating' \<le> 2 then
                            ascii ''Customer expressed dissatisfaction ('' @ stars
                            @ ascii '' stars). Review requires attention.''
                          else if rating' = 3 then
                            ascii ''Mixed review ('' @ stars
                            @ ascii '' stars). Customer had both positive and negative experiences.''
                          else
                            ascii ''Positive review ('' @ stars
                            @ ascii '' stars). Customer had a good experience.''),
                     posted'))))"

definition recommended_actions_prompt :: "int \<Rightarrow> pystr \<Rightarrow> py_exception + pystr" where
  \<open>recommended_actions_prompt rating' review_text' =
     (case str_int rating' of
        Inl e \<Rightarrow> Inl e
      | Inr stars \<Rightarrow> Inr (
          ascii ''Based on this '' @ stars
          @ ascii ''-star customer review, suggest 2-3 specific, actionable steps \<newline>''
          @ ascii ''the business should take. Format as bullet points.\<newline>\<newline>''
          @ ascii ''Review: "'' @ review_text' @ ascii ''"\<newline>\<newline>''
          @ ascii ''Consider:\<newline>''
          @ ascii ''- For low ratings (1-2): Immediate damage control, specific fixes\<newline>''
          @ ascii ''- For medium ratings (3): Identify areas for improvement\<newline>''
          @ ascii ''- For high ratings (4-5): Reinforce what's working, small enhancements\<newline>''
          @ ascii ''\<newline>Recommended Actions:''))\<close>

text \<open>The bullet of the fallback lists is U+2022.\<close>

definition generate_recommended_actions ::
  "llm_handler \<Rightarrow> endpoint \<Rightarrow> int \<Rightarrow> pystr \<Rightarrow> request list
     \<Rightarrow> (py_exception + pystr) \<times> request list" where
  "generate_recommended_actions self post rating' review_text' posted =
     (case recommended_actions_prompt rating' review_text' of
        Inl e \<Rightarrow> (Inl e, posted)
      | Inr prompt \<Rightarrow>
          (case call_api self post prompt (4 / 10) 250 posted of
             (Inr response, posted') \<Rightarrow> (Inr response, posted')
           | (Inl e, posted') \<Rightarrow>
               (Inr (if rating' \<le> 2 then
                       8226 # ascii '' Contact customer directly to address concerns\<newline>''
                       @ 8226 # ascii '' Review and fix mentioned issues\<newline>''
                       @ 8226 # ascii '' Implement quality control measures''
                     else if rating' = 3 then
                       8226 # ascii '' Analyze feedback for improvement areas\<newline>''
                       @ 8226 # ascii '' Follow up with customer on experience\<newline>''
                       @ 8226 # ascii '' Train staff on customer service''
                     else
                       8226 # ascii '' Thank customer for positive feedback\<newline>''
                       @ 8226 # ascii '' Continue current practices\<newline>''
                       @ 8226 # ascii '' Share success with team''),
                posted')))"

text \<open>
  \<open>process_feedback\<close>: the dictionary of the three texts, its entries evaluated in
  the order written; the first exception ends the evaluation.
\<close>

record ai_responses =
  ai_user_response :: pystr
  ai_admin_summary :: pystr
  ai_recommended_actions :: pystr

definition process_feedback ::
  "llm_handler \<Rightarrow> endpoint \<Rightarrow> int \<Rightarrow> pystr \<Rightarrow> request list
     \<Rightarrow> (py_exception + ai_responses) \<times> request list" where
  "process_feedback self post rating' review_text' posted =
     (case generate_user_response self post rating' review_text' posted of
        (Inl e, posted1) \<Rightarrow> (Inl e, posted1)
      | (Inr u, posted1) \<Rightarrow>
          (case generate_admin_summary self post rating' review_text' posted1 of
             (Inl e, posted2) \<Rightarrow> (Inl e, posted2)
           | (Inr a, posted2) \<Rightarrow>
               (case generate_recommended_actions self post rating' review_text' posted2 of
                  (Inl e, posted3) \<Rightarrow> (Inl e, posted3)
                | (Inr r, posted3) \<Rightarrow>
                    (Inr \<lparr>ai_user_response = u, ai_admin_summary = a,
                          ai_recommended_actions = r\<rparr>,
                     posted3))))"

text \<open>\<open>get_llm_handler\<close>: the module-level instance is built on the first call.\<close>

definition get_llm_handler ::
  "pystr option \<Rightarrow> pystr option \<Rightarrow> pystr option \<Rightarrow> llm_handler option
     \<Rightarrow> (py_exception + llm_handler) \<times> llm_handler option" where
  "get_llm_handler api_key' model' getenv llm_instance' =
     (case llm_instance' of
        Some h \<Rightarrow> (Inr h, Some h)
      | None \<Rightarrow>
          (case LLMHandler api_key' model' getenv of
             Inl e \<Rightarrow> (Inl e, None)
           | Inr h \<Rightarrow> (Inr h, Some h)))"


section \<open>Submitting a review (pages/1_user_dashboard.py)\<close>

text \<open>
  The form hands over the rating chosen on a slider whose options are 1 to 5, and the
  text of the text area. What a run of the page with the form submitted comes to: an
  exception that nothing catches; an error message and nothing else; the message
  about the missing key and \<open>st.stop()\<close>; the stored response data; or the message of
  the \<open>except\<close> branch.
\<close>

record response_data =
  submission_id :: int
  submitted_rating :: int
  review :: pystr
  response :: pystr

datatype outcome =
    Uncaught py_exception
  | Validation_error pystr
  | Stopped pystr
  | Submitted response_data
  | Error_occurred py_exception

record world =
  store :: database
  llm_instance :: "llm_handler option"

definition submit ::
  "pystr option \<Rightarrow> endpoint \<Rightarrow> int \<Rightarrow> int \<Rightarrow> pystr \<Rightarrow> world
     \<Rightarrow> outcome \<times> world \<times> request list" where
  "submit getenv post now rating' review_text' w =
     (if strip review_text' = [] then
        (Validation_error (10060 # ascii '' Please write a review before submitting!''), w, [])
      else if length (strip review_text') < 10 then
        (Validation_error
           (10060 # ascii '' Please provide a more detailed review (at least 10 characters)''),
         w, [])
      else
        (case py_or getenv None of
           None \<Rightarrow>
             (Stopped ([9888, 65039] @ ascii
                '' API key not configured. Please set OPENROUTER_API_KEY environment variable.''),
              w, [])
         | Some key \<Rightarrow>
             (case get_llm_handler (Some key) None getenv (llm_instance w) of
                (Inl e, inst) \<Rightarrow> (Error_occurred e, w\<lparr>llm_instance := inst\<rparr>, [])
              | (Inr llm, inst) \<Rightarrow>
                  (case process_feedback llm post rating' review_text' [] of
                     (Inl e, posted) \<Rightarrow> (Error_occurred e, w\<lparr>llm_instance := inst\<rparr>, posted)
                   | (Inr ai, posted) \<Rightarrow>
                       (case insert_feedback now rating' review_text'
                               (Some (ai_user_response ai)) (Some (ai_admin_summary ai))
                               (Some (ai_recommended_actions ai)) (store w) of
                          Inl e \<Rightarrow> (Error_occurred e, w\<lparr>llm_instance := inst\<rparr>, posted)
                        | Inr (feedback_id', db') \<Rightarrow>
                            (Submitted \<lparr>submission_id = feedback_id',
                                        submitted_rating = rating',
                                        review = review_text',
                                        response = ai_user_response ai\<rparr>,
                             \<lparr>store = db', llm_instance = inst\<rparr>, posted))))))"

text \<open>
  The page builds the form before it looks at the button: the row of stars for the
  rating, and the description \<open>rating_descriptions[rating]\<close>, which exists for the
  ratings 1 to 5 only (the \<open>KeyError\<close> holds the key, written here in decimal). Only
  then comes the block above.
\<close>

definition rating_descriptions :: "(int \<times> pystr) list" where
  "rating_descriptions =
     [(1, 128542 # ascii '' Poor - Very dissatisfied''),
      (2, 128533 # ascii '' Fair - Somewhat dissatisfied''),
      (3, 128528 # ascii '' Good - Neither satisfied nor dissatisfied''),
      (4, 128522 # ascii '' Very Good - Satisfied''),
      (5, 129321 # ascii '' Excellent - Very satisfied'')]"

definition form :: "nat \<Rightarrow> int \<Rightarrow> py_exception + (pystr \<times> pystr)" where
  "form memory rating' =
     (case repeat memory [11088] rating' of
        Inl e \<Rightarrow> Inl e
      | Inr filled \<Rightarrow>
          (case repeat memory [9734] (5 - rating') of
             Inl e \<Rightarrow> Inl e
           | Inr hollow \<Rightarrow>
               if memory < length filled + length hollow then Inl MemoryError
               else
                 (case map_of rating_descriptions rating' of
                    None \<Rightarrow> Inl (KeyError (decimal rating'))
                  | Some description \<Rightarrow> Inr (filled @ hollow, description))))"

definition user_dashboard ::
  "nat \<Rightarrow> pystr option \<Rightarrow> endpoint \<Rightarrow> int \<Rightarrow> int \<Rightarrow> pystr \<Rightarrow> world
     \<Rightarrow> outcome \<times> world \<times> request list" where
  "user_dashboard memory getenv post now rating' review_text' w =
     (case form memory rating' of
        Inl e \<Rightarrow> (Uncaught e, w, [])
      | Inr stars \<Rightarrow> submit getenv post now rating' review_text' w)"

text \<open>
  What the two pages do to the store: a submission, and the administrator's deletion
  of one record or of all.
\<close>

datatype action =
    Submit "pystr option" endpoint int int pystr
  | Delete_feedback int
  | Clear_all_data

fun act :: "world \<Rightarrow> action \<Rightarrow> world" where
  "act w (Submit getenv post now r t) = fst (snd (submit getenv post now r t w))"
| "act w (Delete_feedback i) =
     (case delete_feedback i (store w) of Inl _ \<Rightarrow> w | Inr (_, db') \<Rightarrow> w\<lparr>store := db'\<rparr>)"
| "act w Clear_all_data = w\<lparr>store := clear_all_data (store w)\<rparr>"

definition session :: "action list \<Rightarrow> world" where
  "session as = foldl act \<lparr>store = create_tables, llm_instance = None\<rparr> as"


section \<open>Invariants and example inputs\<close>

text \<open>
  What every reachable store state satisfies: the ids increase along the table, are
  positive and none exceeds the counter, which stays in the signed 64-bit range.
\<close>

definition store_inv :: "database \<Rightarrow> bool" where
  "store_inv db = (sorted_wrt (<) (map feedback_id (rows db))
     \<and> (\<forall>r \<in> set (rows db). 0 < feedback_id r \<and> feedback_id r \<le> sqlite_sequence db)
     \<and> 0 \<le> sqlite_sequence db \<and> sqlite_sequence db < 2 ^ 63)"

text \<open>
  With clock readings that never go back, the timestamps also increase (weakly) along
  the table.
\<close>

definition insert_times :: "store_op list \<Rightarrow> int list" where
  "insert_times ops = concat (map insert_time ops)"

text \<open>
  The texts of the three \<open>except\<close> branches, the three bands of their \<open>if\<close> chains, and
  whether the call of \<open>_call_api\<close> with a prompt raises (there is no call when the
  prompt could not be built).
\<close>

definition user_response_fallback :: "int \<Rightarrow> pystr" where
  "user_response_fallback rating' =
     ascii ''Thank you for your '' @ decimal rating'
     @ ascii ''-star review! We appreciate your feedback and will use it to improve our service.''"

definition admin_summary_fallback :: "int \<Rightarrow> pystr" where
  "admin_summary_fallback rating' =
     (if rating' \<le> 2 then
        ascii ''Customer expressed dissatisfaction ('' @ decimal rating'
        @ ascii '' stars). Review requires attention.''
      else if rating' = 3 then
        ascii ''Mixed review ('' @ decimal rating'
        @ ascii '' stars). Customer had both positive and negative experiences.''
      else
        ascii ''Positive review ('' @ decimal rating'
        @ ascii '' stars). Customer had a good experience.'')"

definition recommended_actions_fallback :: "int \<Rightarrow> pystr" where
  "recommended_actions_fallback rating' =
     (if rating' \<le> 2 then
        8226 # ascii '' Contact customer directly to address concerns\<newline>''
        @ 8226 # ascii '' Review and fix mentioned issues\<newline>''
        @ 8226 # ascii '' Implement quality control measures''
      else if rating' = 3 then
        8226 # ascii '' Analyze feedback for improvement areas\<newline>''
        @ 8226 # ascii '' Follow up with customer on experience\<newline>''
        @ 8226 # ascii '' Train staff on customer service''
      else
        8226 # ascii '' Thank customer for positive feedback\<newline>''
        @ 8226 # ascii '' Continue current practices\<newline>''
        @ 8226 # ascii '' Share success with team'')"

definition rating_band :: "int \<Rightarrow> nat" where
  "rating_band rating' = (if rating' \<le> 2 then 0 else if rating' = 3 then 1 else 2)"

definition call_fails ::
  "llm_handler \<Rightarrow> endpoint \<Rightarrow> py_exception + pystr \<Rightarrow> real \<Rightarrow> int \<Rightarrow> bool" where
  "call_fails self post prompt temperature' max_tokens' =
     (case prompt of
        Inl e \<Rightarrow> False
      | Inr p \<Rightarrow> isl (fst (call_api self post p temperature' max_tokens' [])))"

text \<open>All three generated columns of a row are filled.\<close>

definition populated :: "feedback \<Rightarrow> bool" where
  "populated r =
     (user_response r \<noteq> None \<and> admin_summary r \<noteq> None \<and> recommended_actions r \<noteq> None)"

text \<open>
  Example inputs: an endpoint that cannot be reached, a well-formed reply, an
  endpoint that times out on the first of the three requests and answers the other
  two with an empty text, a handler, and the world before the first submission.
\<close>

definition unreachable :: endpoint where
  "unreachable data = Inl (RequestException (ascii ''Connection refused''))"

definition reply :: "pystr \<Rightarrow> json" where
  "reply text =
     JDict [(ascii ''id'', JStr (ascii ''gen-1'')),
            (ascii ''choices'',
             JList [JDict [(ascii ''message'',
                            JDict [(ascii ''role'', JStr (ascii ''assistant'')),
                                   (ascii ''content'', JStr text)])]])]"

definition empty_replies :: endpoint where
  "empty_replies data =
     (if max_tokens data = 200 then Inl (RequestException (ascii ''Read timed out''))
      else Inr (reply []))"

definition example_key :: pystr where
  "example_key = ascii ''sk-example''"

definition example_handler :: llm_handler where
  "example_handler =
     \<lparr>api_key = example_key,
      model = ascii ''mistralai/mistral-7b-instruct:free'',
      api_url = ascii ''https://openrouter.ai/api/v1/chat/completions''\<rparr>"

definition first_visit :: world where
  "first_visit = \<lparr>store = create_tables, llm_instance = None\<rparr>"

definition example_review :: pystr where
  "example_review = ascii ''Great service overall''"


definition example_ops :: "store_op list" where
  "example_ops =
     [Insert 100 5 example_review None None None,
      Insert 100 2 example_review (Some (ascii ''Thanks'')) None None,
      Insert 200 5 example_review None None None]"


section \<open>Strings and integers\<close>

lemma encodable_ascii [simp]: "encodable (ascii s)"
proof -
  have "of_char c < (55296::nat)" for c :: char
    using nat_of_char_less_256 [of c] by linarith
  then show ?thesis
    by (simp add: encodable_def ascii_def list_all_iff)
qed

lemma bindable_simps [simp]: "bindable None" "bindable (Some s) = encodable s"
  by (simp_all add: bindable_def)

lemma encodable_example_review [simp]: "encodable example_review"
  by (simp add: example_review_def)

lemma digits10_small: "n < 10 \<Longrightarrow> digits10 n = [48 + n]"
  by (subst digits10.simps) simp

lemma length_digits10: "n < 10 ^ k \<Longrightarrow> 0 < k \<Longrightarrow> length (digits10 n) \<le> k"
proof (induction n arbitrary: k rule: digits10.induct)
  case (1 n)
  show ?case
  proof (cases "n < 10")
    case True
    with "1.prems" show ?thesis by (simp add: digits10_small)
  next
    case False
    obtain j where k: "k = Suc j"
      using "1.prems"(2) by (cases k) auto
    have "j \<noteq> 0"
      using False "1.prems"(1) k by (cases j) auto
    moreover have "n div 10 < 10 ^ j"
      using "1.prems"(1) k by (simp add: less_mult_imp_div_less mult.commute)
    ultimately have "length (digits10 (n div 10)) \<le> j"
      using "1.IH" [OF False, of j] by simp
    then show ?thesis
      using False k by (subst digits10.simps) simp
  qed
qed

lemma str_int_int64: "int64 i \<Longrightarrow> str_int i = Inr (decimal i)"
proof -
  assume "int64 i"
  then have "nat \<bar>i\<bar> < 10 ^ 19"
    by (auto simp: int64_def)
  then have "length (digits10 (nat \<bar>i\<bar>)) \<le> 19"
    by (rule length_digits10) simp
  then show ?thesis
    by (simp add: str_int_def)
qed

lemma str_int_2_63: "str_int 9223372036854775808 = Inr (decimal 9223372036854775808)"
proof -
  have "nat \<bar>9223372036854775808 :: int\<bar> < 10 ^ 19"
    by simp
  then have "length (digits10 (nat \<bar>9223372036854775808 :: int\<bar>)) \<le> 19"
    by (rule length_digits10) simp
  then show ?thesis
    by (simp add: str_int_def)
qed


section \<open>Reachable store states\<close>

lemma run_Nil: "run [] = create_tables"
  by (simp add: run_def)

lemma run_snoc: "run (ops @ [x]) = apply_op (run ops) x"
  by (simp add: run_def)

lemma store_inv_create: "store_inv create_tables"
  by (simp add: store_inv_def create_tables_def)

lemma store_inv_insert:
  assumes "store_inv db" and "insert_feedback now r t u a c db = Inr (i, db')"
  shows "store_inv db'"
  using assms
  by (fastforce simp: store_inv_def insert_feedback_def Let_def sorted_wrt_append
      split: if_splits)

lemma store_inv_delete:
  "store_inv db \<Longrightarrow> delete_feedback i db = Inr (b, db') \<Longrightarrow> store_inv db'"
  by (auto simp: store_inv_def delete_feedback_def Let_def sorted_wrt_map
      intro: sorted_wrt_filter split: if_splits)

lemma store_inv_clear: "store_inv db \<Longrightarrow> store_inv (clear_all_data db)"
  by (simp add: store_inv_def clear_all_data_def)

lemma store_inv_apply_op: "store_inv db \<Longrightarrow> store_inv (apply_op db x)"
  by (cases x)
    (auto simp: store_inv_clear dest: store_inv_insert store_inv_delete split: sum.splits)

lemma store_inv_run: "store_inv (run ops)"
  by (induction ops rule: rev_induct)
    (simp_all add: run_Nil run_snoc store_inv_create store_inv_apply_op)

lemma distinct_ids_run: "distinct (map feedback_id (rows (run ops)))"
  using store_inv_run [of ops] by (simp add: store_inv_def strict_sorted_iff)

lemma run_example_ops:
  "run example_ops =
     \<lparr>rows =
        [\<lparr>feedback_id = 1, timestamp = 100, rating = 5, review_text = example_review,
          user_response = None, admin_summary = None, recommended_actions = None\<rparr>,
         \<lparr>feedback_id = 2, timestamp = 100, rating = 2, review_text = example_review,
          user_response = Some (ascii ''Thanks''), admin_summary = None,
          recommended_actions = None\<rparr>,
         \<lparr>feedback_id = 3, timestamp = 200, rating = 5, review_text = example_review,
          user_response = None, admin_summary = None, recommended_actions = None\<rparr>],
      sqlite_sequence = 3\<rparr>"
  by (simp add: run_def example_ops_def create_tables_def insert_feedback_def int64_def)


lemma insert_times_example_ops: "insert_times example_ops = [100, 100, 200]"
  by (simp add: insert_times_def example_ops_def)


section \<open>Deleting a record\<close>

lemma count_id_le_1:
  "distinct (map feedback_id rs) \<Longrightarrow>
   length (filter (\<lambda>r. feedback_id r = i) rs) = (if i \<in> feedback_id ` set rs then 1 else 0)"
  by (induction rs) auto

lemma length_filter_neq:
  "length (filter (\<lambda>r. feedback_id r \<noteq> i) rs) + length (filter (\<lambda>r. feedback_id r = i) rs)
     = length rs"
  by (induction rs) auto

text \<open>
  Claim C8. In every reachable store state, \<open>delete_feedback i\<close> returns true exactly
  when a record with id \<open>i\<close> exists; it removes that record and no other. When it
  returns true the record count goes down by exactly one, when it returns false the
  store is unchanged; a second call with the same id returns false and changes
  nothing. It raises only for an \<open>i\<close> outside the 64-bit range, which is the id of no
  record.
\<close>

theorem delete_feedback_once:
  "let db = run ops; existed = (\<exists>r \<in> set (rows db). feedback_id r = i)
   in (case delete_feedback i db of
         Inl e \<Rightarrow> \<not> int64 i \<and> \<not> existed
       | Inr (deleted, db') \<Rightarrow>
           deleted = existed
         \<and> rows db' = filter (\<lambda>r. feedback_id r \<noteq> i) (rows db)
         \<and> (\<forall>r \<in> set (rows db'). feedback_id r \<noteq> i)
         \<and> (deleted \<longrightarrow>
               total_submissions (get_statistics now db') + 1
                 = total_submissions (get_statistics now db))
         \<and> (\<not> deleted \<longrightarrow> db' = db)
         \<and> delete_feedback i db' = Inr (False, db'))"
proof -
  define db where "db = run ops"
  have d: "distinct (map feedback_id (rows db))"
    unfolding db_def by (rule distinct_ids_run)
  have c: "length (filter (\<lambda>r. feedback_id r = i) (rows db))
      = (if i \<in> feedback_id ` set (rows db) then 1 else 0)"
    using d by (rule count_id_le_1)
  have n: "length (filter (\<lambda>r. feedback_id r \<noteq> i) (rows db))
      + length (filter (\<lambda>r. feedback_id r = i) (rows db)) = length (rows db)"
    by (rule length_filter_neq)
  have same: "\<not> (\<exists>r \<in> set (rows db). feedback_id r = i) \<Longrightarrow>
      filter (\<lambda>r. feedback_id r \<noteq> i) (rows db) = rows db"
    by (induction "rows db") (auto simp: filter_id_conv)
  have range: "int64 (feedback_id r)" if "r \<in> set (rows db)" for r
    using store_inv_run [of ops] that by (auto simp: store_inv_def int64_def db_def)
  show ?thesis
    unfolding Let_def db_def [symmetric]
    using c n same range
    by (auto simp: delete_feedback_def Let_def get_statistics_def filter_empty_conv image_iff
        split: if_splits)
qed

theorem delete_feedback_once_witness:
  "(\<exists>r \<in> set (rows (run example_ops)). feedback_id r = 2)
   \<and> delete_feedback 2 (run example_ops)
       = Inr (True, \<lparr>rows = filter (\<lambda>r. feedback_id r \<noteq> 2) (rows (run example_ops)),
                     sqlite_sequence = 3\<rparr>)
   \<and> map feedback_id (filter (\<lambda>r. feedback_id r \<noteq> 2) (rows (run example_ops))) = [1, 3]
   \<and> delete_feedback 2 \<lparr>rows = filter (\<lambda>r. feedback_id r \<noteq> 2) (rows (run example_ops)),
                          sqlite_sequence = 3\<rparr>
       = Inr (False, \<lparr>rows = filter (\<lambda>r. feedback_id r \<noteq> 2) (rows (run example_ops)),
                      sqlite_sequence = 3\<rparr>)
   \<and> delete_feedback 7 (run example_ops) = Inr (False, run example_ops)
   \<and> delete_feedback (2 ^ 63) (run example_ops) = Inl OverflowError"
  using delete_feedback_once [where ops = example_ops and i = 2 and now = 300]
    delete_feedback_once [where ops = example_ops and i = 7 and now = 300]
    delete_feedback_once [where ops = example_ops and i = "2 ^ 63" and now = 300]
  by (simp add: Let_def run_example_ops delete_feedback_def int64_def)


section \<open>Statistics\<close>

lemma length_filter_count: "length (filter (\<lambda>r. f r = v) rs) = count_list (map f rs) v"
  by (induction rs) auto

lemma sum_group_counts:
  "sum_list (map (\<lambda>v. length (filter (\<lambda>r. rating r = v) rs)) (sort (remdups (map rating rs))))
     = length rs"
proof -
  let ?vs = "sort (remdups (map rating rs))"
  have "sum_list (map (\<lambda>v. length (filter (\<lambda>r. rating r = v) rs)) ?vs)
      = sum_list (map (count_list (map rating rs)) ?vs)"
    by (simp add: length_filter_count)
  also have "\<dots> = sum (count_list (map rating rs)) (set ?vs)"
    by (rule sum_list_distinct_conv_sum_set) simp
  also have "\<dots> = sum (count_list (map rating rs)) (set (map rating rs))"
    by simp
  also have "\<dots> = length (map rating rs)"
    by (rule sum_count_set) simp_all
  finally show ?thesis by simp
qed

text \<open>
  Claim C5. In every store state the counts of \<open>rating_distribution\<close> add up to
  \<open>total_submissions\<close>, and the dictionary has an entry for a rating value exactly when
  at least one record has that rating; the entry is the number of those records.
\<close>

theorem rating_distribution_sums_to_total:
  "let stats = get_statistics now db; dist = rating_distribution stats
   in sum_list (map snd dist) = total_submissions stats
    \<and> distinct (map fst dist)
    \<and> sorted (map fst dist)
    \<and> (\<forall>v. (v \<in> fst ` set dist) = (\<exists>r \<in> set (rows db). rating r = v))
    \<and> (\<forall>v n. (v, n) \<in> set dist \<longrightarrow>
          n = length (filter (\<lambda>r. rating r = v) (rows db)) \<and> 1 \<le> n)"
proof -
  have pos: "1 \<le> length (filter (\<lambda>r. rating r = rating x) (rows db))"
    if "x \<in> set (rows db)" for x
  proof -
    have "filter (\<lambda>r. rating r = rating x) (rows db) \<noteq> []"
      using that by (auto simp: filter_empty_conv)
    then show ?thesis by (cases "filter (\<lambda>r. rating r = rating x) (rows db)") auto
  qed
  show ?thesis
    using pos
    by (auto simp: Let_def get_statistics_def group_by_rating_def comp_def sum_group_counts
        image_iff)
qed

theorem rating_distribution_sums_to_total_witness:
  "rating_distribution (get_statistics 300 (run example_ops)) = [(2, 1), (5, 2)]
   \<and> total_submissions (get_statistics 300 (run example_ops)) = 3
   \<and> (\<exists>r \<in> set (rows (run example_ops)). rating r = 5)
   \<and> \<not> (\<exists>r \<in> set (rows (run example_ops)). rating r = 4)"
  using rating_distribution_sums_to_total [where db = "run example_ops" and now = 300]
  by (simp add: run_example_ops get_statistics_def group_by_rating_def)

text \<open>
  Claim C10. \<open>recent_submissions_24h\<close> counts exactly the records whose timestamp is
  not earlier than 24 hours (86400 seconds) before the query time. A record inserted
  at time \<open>t\<close> is counted by a query at \<open>t + 86400\<close>, and no longer one second later.
\<close>

theorem recent_window_inclusive:
  "recent_submissions_24h (get_statistics now db)
     = length (filter (\<lambda>r. now - 86400 \<le> timestamp r) (rows db))
   \<and> (\<forall>t r x u a c i db'. insert_feedback t r x u a c db = Inr (i, db') \<longrightarrow>
        recent_submissions_24h (get_statistics now db')
          = recent_submissions_24h (get_statistics now db) + (if now - 86400 \<le> t then 1 else 0))
   \<and> (\<forall>t r x u a c i db'. insert_feedback t r x u a c db = Inr (i, db') \<longrightarrow>
        recent_submissions_24h (get_statistics (t + 86400) db')
          = recent_submissions_24h (get_statistics (t + 86400) db) + 1
        \<and> recent_submissions_24h (get_statistics (t + 86401) db')
          = recent_submissions_24h (get_statistics (t + 86401) db))"
  by (auto simp: get_statistics_def insert_feedback_def Let_def split: if_splits)

theorem recent_window_inclusive_witness:
  "insert_feedback 100 5 example_review None None None create_tables
     = Inr (1, run [Insert 100 5 example_review None None None])
   \<and> recent_submissions_24h
        (get_statistics (100 + 86400) (run [Insert 100 5 example_review None None None])) = 1
   \<and> recent_submissions_24h
        (get_statistics (100 + 86401) (run [Insert 100 5 example_review None None None])) = 0"
  using recent_window_inclusive [where db = create_tables and now = 0]
  by (simp add: run_def create_tables_def insert_feedback_def int64_def get_statistics_def)


section \<open>Export\<close>

text \<open>
  Claim C6. The exported file is one header record, with the columns id, timestamp,
  rating, review_text, user_response, admin_summary, recommended_actions in this
  order, followed by one record for each row of \<open>get_all_feedback\<close>; these are
  \<open>total_submissions\<close> records, all the stored ones, and their number is what
  \<open>export_to_csv\<close> returns.
\<close>

theorem export_to_csv_rows:
  "let stats = get_statistics now db; (file, count) = export_to_csv db
   in file = map Text_cell [ascii ''id'', ascii ''timestamp'', ascii ''rating'',
               ascii ''review_text'', ascii ''user_response'', ascii ''admin_summary'',
               ascii ''recommended_actions'']
             # map cells (get_all_feedback db)
    \<and> length (tl file) = total_submissions stats
    \<and> count = total_submissions stats
    \<and> mset (get_all_feedback db) = mset (rows db)"
  by (simp add: Let_def export_to_csv_def to_csv_def columns_def get_statistics_def
      get_all_feedback_def order_by_timestamp_desc_def)

theorem export_to_csv_rows_witness:
  "length (fst (export_to_csv (run example_ops))) = 4
   \<and> snd (export_to_csv (run example_ops)) = 3
   \<and> total_submissions (get_statistics 300 (run example_ops)) = 3"
  using export_to_csv_rows [where db = "run example_ops" and now = 300]
  by (simp add: run_example_ops get_statistics_def export_to_csv_def to_csv_def columns_def
      get_all_feedback_def order_by_timestamp_desc_def)


section \<open>Order of the query results\<close>

lemma timestamps_run:
  "sorted (insert_times ops) \<Longrightarrow>
   sorted (map timestamp (rows (run ops)))
   \<and> set (map timestamp (rows (run ops))) \<subseteq> set (insert_times ops)"
proof (induction ops rule: rev_induct)
  case Nil
  then show ?case by (simp add: run_Nil create_tables_def)
next
  case (snoc x ops)
  from snoc.prems have s: "sorted (insert_times ops)"
    and le: "\<forall>a \<in> set (insert_times ops). \<forall>b \<in> set (insert_time x). a \<le> b"
    by (auto simp: insert_times_def sorted_append)
  from snoc.IH [OF s] have srt: "sorted (map timestamp (rows (run ops)))"
    and sub: "set (map timestamp (rows (run ops))) \<subseteq> set (insert_times ops)"
    by simp_all
  show ?case
  proof (cases x)
    case (Insert now r t u a c)
    show ?thesis
    proof (cases "int64 r \<and> \<not> sqlite_sequence (run ops) \<ge> 2 ^ 63 - 1")
      case True
      with Insert srt sub le show ?thesis
        by (auto simp: run_snoc insert_feedback_def Let_def insert_times_def sorted_append)
    next
      case False
      with Insert srt sub show ?thesis
        by (auto simp: run_snoc insert_feedback_def insert_times_def)
    qed
  next
    case (Delete i)
    have "sorted (map timestamp (filter (\<lambda>r. feedback_id r \<noteq> i) (rows (run ops))))"
      using srt by (simp add: sorted_wrt_map sorted_wrt_filter)
    with Delete srt sub show ?thesis
      by (auto simp: run_snoc delete_feedback_def Let_def insert_times_def)
  next
    case Clear
    then show ?thesis by (simp add: run_snoc clear_all_data_def)
  qed
qed

lemma sorted_wrt_conj:
  "sorted_wrt P xs \<Longrightarrow> sorted_wrt Q xs \<Longrightarrow> sorted_wrt (\<lambda>a b. P a b \<and> Q a b) xs"
  by (induction xs) auto

lemma in_order_rows:
  assumes "sorted (insert_times ops)"
  shows "sorted_wrt (\<lambda>a b. feedback_id a < feedback_id b \<and> timestamp a \<le> timestamp b)
           (rows (run ops))"
proof -
  have "sorted_wrt (\<lambda>a b. feedback_id a < feedback_id b) (rows (run ops))"
    using store_inv_run [of ops] by (simp add: store_inv_def sorted_wrt_map)
  moreover have "sorted_wrt (\<lambda>a b. timestamp a \<le> timestamp b) (rows (run ops))"
    using timestamps_run [OF assms] by (simp add: sorted_wrt_map)
  ultimately show ?thesis by (rule sorted_wrt_conj)
qed

lemma sorted_wrt_pairs:
  assumes "sorted_wrt P xs" and "a \<in> set xs" and "b \<in> set xs"
  shows "a = b \<or> P a b \<or> P b a"
  using assms by (induction xs) auto

lemma timestamps_monotone_in_id:
  assumes "sorted (insert_times ops)"
    and "a \<in> set (rows (run ops))" and "b \<in> set (rows (run ops))"
    and "feedback_id a < feedback_id b"
  shows "timestamp a \<le> timestamp b"
  using sorted_wrt_pairs [OF in_order_rows [OF assms(1)] assms(2,3)] assms(4) by auto

lemma newest_first: "sorted_wrt (\<lambda>a b. timestamp b \<le> timestamp a) (order_by_timestamp_desc rs)"
proof -
  have "sorted (map (\<lambda>r. - timestamp r) (sort_key (\<lambda>r. - timestamp r) rs))"
    by (rule sorted_sort_key)
  then show ?thesis
    by (simp add: order_by_timestamp_desc_def sorted_wrt_map)
qed

text \<open>
  Claim C7, as amended. In every store state reached by inserts, deletions and
  clearing, one at a time, with clock readings that never go back:
  \<open>get_all_feedback\<close> returns all records and, like \<open>get_recent_feedback\<close>, newest
  first by timestamp; timestamps do not decrease with the id; two returned records
  with different timestamps come in descending order of id (records with the same
  timestamp are not ordered by id); \<open>get_recent_feedback limit\<close>, for a limit in the
  64-bit range, is a prefix of \<open>get_all_feedback\<close>, of at most \<open>limit\<close> records when
  \<open>limit\<close> is not negative, and all records when it is.
\<close>

theorem newest_first_order:
  assumes "sorted (insert_times ops)"
  shows "let db = run ops; all = get_all_feedback db
   in mset all = mset (rows db)
    \<and> sorted_wrt (\<lambda>a b. timestamp b \<le> timestamp a) all
    \<and> (\<forall>a \<in> set (rows db). \<forall>b \<in> set (rows db).
          feedback_id a < feedback_id b \<longrightarrow> timestamp a \<le> timestamp b)
    \<and> sorted_wrt (\<lambda>a b. timestamp a \<noteq> timestamp b \<longrightarrow> feedback_id b < feedback_id a) all
    \<and> (case get_recent_feedback limit db of
          Inl e \<Rightarrow> \<not> int64 limit
        | Inr recent \<Rightarrow>
            sorted_wrt (\<lambda>a b. timestamp b \<le> timestamp a) recent
          \<and> prefix recent all
          \<and> (0 \<le> limit \<longrightarrow> recent = take (nat limit) all \<and> int (length recent) \<le> limit)
          \<and> (limit < 0 \<longrightarrow> recent = all))"
proof -
  define db where "db = run ops"
  define all where "all = get_all_feedback db"
  have m: "mset all = mset (rows db)"
    by (simp add: all_def get_all_feedback_def order_by_timestamp_desc_def)
  have s: "sorted_wrt (\<lambda>a b. timestamp b \<le> timestamp a) all"
    unfolding all_def get_all_feedback_def by (rule newest_first)
  have r: "get_recent_feedback limit db =
      (if \<not> int64 limit then Inl (case str_int limit of Inl e \<Rightarrow> e | Inr d \<Rightarrow> DatabaseError)
       else Inr (if limit < 0 then all else take (nat limit) all))"
    by (auto simp: all_def get_recent_feedback_def get_all_feedback_def str_int_int64
        split: sum.splits)
  have st: "sorted_wrt (\<lambda>a b. timestamp b \<le> timestamp a) (take (nat limit) all)"
    using s by (rule sorted_wrt_take)
  have mono: "\<forall>a \<in> set (rows db). \<forall>b \<in> set (rows db).
      feedback_id a < feedback_id b \<longrightarrow> timestamp a \<le> timestamp b"
    unfolding db_def using timestamps_monotone_in_id [OF assms] by blast
  have eq: "set all = set (rows db)"
    using m by (rule mset_eq_setD)
  have ids: "sorted_wrt (\<lambda>a b. timestamp a \<noteq> timestamp b \<longrightarrow> feedback_id b < feedback_id a) all"
  proof (rule sorted_wrt_mono_rel [OF _ s])
    fix a b
    assume "a \<in> set all" "b \<in> set all" "timestamp b \<le> timestamp a"
    then have "a \<in> set (rows (run ops))" "b \<in> set (rows (run ops))"
      and le: "timestamp b \<le> timestamp a"
      using eq by (simp_all add: db_def)
    from sorted_wrt_pairs [OF in_order_rows [OF assms] this(1,2)] le
    show "timestamp a \<noteq> timestamp b \<longrightarrow> feedback_id b < feedback_id a"
      by auto
  qed
  show ?thesis
    unfolding Let_def db_def [symmetric] all_def [symmetric]
    using m s st mono ids by (auto simp: r take_is_prefix)
qed

theorem newest_first_order_witness:
  "sorted (insert_times example_ops)
   \<and> map feedback_id (get_all_feedback (run example_ops)) = [3, 1, 2]
   \<and> map timestamp (get_all_feedback (run example_ops)) = [200, 100, 100]
   \<and> map_sum id (map feedback_id) (get_recent_feedback 2 (run example_ops)) = Inr [3, 1]
   \<and> map_sum id (map feedback_id) (get_recent_feedback (- 1) (run example_ops))
       = Inr [3, 1, 2]
   \<and> get_recent_feedback (2 ^ 63) (run example_ops) = Inl DatabaseError"
  using newest_first_order [where ops = example_ops and limit = 2]
    newest_first_order [where ops = example_ops and limit = "- 1"]
    newest_first_order [where ops = example_ops and limit = "2 ^ 63"]
  by (simp add: run_example_ops insert_times_example_ops get_all_feedback_def
      get_recent_feedback_def order_by_timestamp_desc_def int64_def str_int_int64
      str_int_2_63)

text \<open>
  Claim C7 as stated fails: two records inserted within the same second come back
  in ascending order of id, and a negative limit returns every record.
\<close>

theorem newest_first_order_counterexample:
  "sorted (insert_times example_ops)
   \<and> \<not> sorted_wrt (\<lambda>a b. feedback_id b < feedback_id a) (get_all_feedback (run example_ops))
   \<and> map_sum id length (get_recent_feedback (- 1) (run example_ops)) = Inr 3"
  by (simp add: run_example_ops insert_times_example_ops get_all_feedback_def
      get_recent_feedback_def order_by_timestamp_desc_def int64_def str_int_int64)



section \<open>The average rating\<close>
















section \<open>The generator's fallback texts\<close>

lemma call_api_result:
  "fst (call_api self post prompt t m posted) = fst (call_api self post prompt t m [])"
  by (simp add: call_api_def Let_def)

lemma call_api_length: "length (snd (call_api self post prompt t m posted)) = length posted + 1"
  by (simp add: call_api_def Let_def)

lemma str_int_Inr: "str_int r = Inr d \<Longrightarrow> d = decimal r"
  by (auto simp: str_int_def split: if_splits)

lemma generate_user_response_result:
  assumes "str_int r = Inr d"
  shows "\<exists>p. user_response_prompt r t = Inr p
    \<and> fst (generate_user_response self post r t posted) =
        Inr (case fst (call_api self post p (7 / 10) 200 []) of
               Inr x \<Rightarrow> x | Inl e \<Rightarrow> user_response_fallback r)
    \<and> length (snd (generate_user_response self post r t posted)) = length posted + 1"
proof -
  obtain p where p: "user_response_prompt r t = Inr p"
    using assms by (simp add: user_response_prompt_def)
  obtain res posted' where c: "call_api self post p (7 / 10) 200 posted = (res, posted')"
    by (cases "call_api self post p (7 / 10) 200 posted")
  have r: "fst (call_api self post p (7 / 10) 200 []) = res"
    using call_api_result [of self post p "7 / 10" 200 posted] c by simp
  have l: "length posted' = length posted + 1"
    using call_api_length [of self post p "7 / 10" 200 posted] c by simp
  have d: "d = decimal r" using assms by (rule str_int_Inr)
  show ?thesis
    using p c r l assms d
    by (cases res) (simp_all add: generate_user_response_def user_response_fallback_def)
qed

lemma generate_admin_summary_result:
  assumes "str_int r = Inr d"
  shows "\<exists>p. admin_summary_prompt r t = Inr p
    \<and> fst (generate_admin_summary self post r t posted) =
        Inr (case fst (call_api self post p (3 / 10) 150 []) of
               Inr x \<Rightarrow> x | Inl e \<Rightarrow> admin_summary_fallback r)
    \<and> length (snd (generate_admin_summary self post r t posted)) = length posted + 1"
proof -
  obtain p where p: "admin_summary_prompt r t = Inr p"
    using assms by (simp add: admin_summary_prompt_def)
  obtain res posted' where c: "call_api self post p (3 / 10) 150 posted = (res, posted')"
    by (cases "call_api self post p (3 / 10) 150 posted")
  have r: "fst (call_api self post p (3 / 10) 150 []) = res"
    using call_api_result [of self post p "3 / 10" 150 posted] c by simp
  have l: "length posted' = length posted + 1"
    using call_api_length [of self post p "3 / 10" 150 posted] c by simp
  have d: "d = decimal r" using assms by (rule str_int_Inr)
  show ?thesis
    using p c r l assms d
    by (cases res) (simp_all add: generate_admin_summary_def admin_summary_fallback_def)
qed

lemma generate_recommended_actions_result:
  assumes "str_int r = Inr d"
  shows "\<exists>p. recommended_actions_prompt r t = Inr p
    \<and> fst (generate_recommended_actions self post r t posted) =
        Inr (case fst (call_api self post p (4 / 10) 250 []) of
               Inr x \<Rightarrow> x | Inl e \<Rightarrow> recommended_actions_fallback r)
    \<and> length (snd (generate_recommended_actions self post r t posted)) = length posted + 1"
proof -
  obtain p where p: "recommended_actions_prompt r t = Inr p"
    using assms by (simp add: recommended_actions_prompt_def)
  obtain res posted' where c: "call_api self post p (4 / 10) 250 posted = (res, posted')"
    by (cases "call_api self post p (4 / 10) 250 posted")
  have r: "fst (call_api self post p (4 / 10) 250 []) = res"
    using call_api_result [of self post p "4 / 10" 250 posted] c by simp
  have l: "length posted' = length posted + 1"
    using call_api_length [of self post p "4 / 10" 250 posted] c by simp
  show ?thesis
    using p c r l
    by (cases res)
      (simp_all add: generate_recommended_actions_def recommended_actions_fallback_def)
qed

text \<open>
  With a rating that \<open>str\<close> can format, \<open>process_feedback\<close> returns its three texts:
  each is the text of its call, or the fallback when the call raised.
\<close>

lemma process_feedback_result:
  assumes "str_int r = Inr d"
  shows "\<exists>pu pa pr.
      user_response_prompt r t = Inr pu \<and> admin_summary_prompt r t = Inr pa
    \<and> recommended_actions_prompt r t = Inr pr
    \<and> fst (process_feedback self post r t posted) =
        Inr \<lparr>ai_user_response =
               (case fst (call_api self post pu (7 / 10) 200 []) of
                  Inr x \<Rightarrow> x | Inl e \<Rightarrow> user_response_fallback r),
             ai_admin_summary =
               (case fst (call_api self post pa (3 / 10) 150 []) of
                  Inr x \<Rightarrow> x | Inl e \<Rightarrow> admin_summary_fallback r),
             ai_recommended_actions =
               (case fst (call_api self post pr (4 / 10) 250 []) of
                  Inr x \<Rightarrow> x | Inl e \<Rightarrow> recommended_actions_fallback r)\<rparr>
    \<and> length (snd (process_feedback self post r t posted)) = length posted + 3"
proof -
  obtain u p1 where u: "generate_user_response self post r t posted = (u, p1)"
    by (cases "generate_user_response self post r t posted")
  obtain a p2 where a: "generate_admin_summary self post r t p1 = (a, p2)"
    by (cases "generate_admin_summary self post r t p1")
  obtain c p3 where c: "generate_recommended_actions self post r t p2 = (c, p3)"
    by (cases "generate_recommended_actions self post r t p2")
  from generate_user_response_result [OF assms, of t self post posted] u
  obtain pu where pu: "user_response_prompt r t = Inr pu"
    "u = Inr (case fst (call_api self post pu (7 / 10) 200 []) of
               Inr x \<Rightarrow> x | Inl e \<Rightarrow> user_response_fallback r)"
    "length p1 = length posted + 1"
    by auto
  from generate_admin_summary_result [OF assms, of t self post p1] a
  obtain pa where pa: "admin_summary_prompt r t = Inr pa"
    "a = Inr (case fst (call_api self post pa (3 / 10) 150 []) of
               Inr x \<Rightarrow> x | Inl e \<Rightarrow> admin_summary_fallback r)"
    "length p2 = length p1 + 1"
    by auto
  from generate_recommended_actions_result [OF assms, of t self post p2] c
  obtain pr where pr: "recommended_actions_prompt r t = Inr pr"
    "c = Inr (case fst (call_api self post pr (4 / 10) 250 []) of
               Inr x \<Rightarrow> x | Inl e \<Rightarrow> recommended_actions_fallback r)"
    "length p3 = length p2 + 1"
    by auto
  show ?thesis
    using u a c pu pa pr by (simp add: process_feedback_def)
qed

lemma str_int_rating: "1 \<le> r \<Longrightarrow> r \<le> 5 \<Longrightarrow> str_int r = Inr (decimal r)"
  by (rule str_int_int64) (simp add: int64_def)

lemma user_response_fallback_contains: "sublist (decimal r) (user_response_fallback r)"
  unfolding sublist_def user_response_fallback_def by blast

lemma fallbacks_nonempty:
  "user_response_fallback r \<noteq> []" "admin_summary_fallback r \<noteq> []"
  "recommended_actions_fallback r \<noteq> []"
  by (simp_all add: user_response_fallback_def admin_summary_fallback_def
      recommended_actions_fallback_def ascii_def)

lemma admin_summary_fallback_bands:
  "rating_band r \<noteq> rating_band r' \<Longrightarrow> admin_summary_fallback r \<noteq> admin_summary_fallback r'"
  by (auto simp: rating_band_def admin_summary_fallback_def ascii_def split: if_splits)

lemma recommended_actions_fallback_bands:
  "rating_band r \<noteq> rating_band r' \<Longrightarrow>
   recommended_actions_fallback r \<noteq> recommended_actions_fallback r'"
  by (auto simp: rating_band_def recommended_actions_fallback_def ascii_def split: if_splits)

lemma recommended_actions_fallback_same_band:
  "rating_band r = rating_band r' \<Longrightarrow>
   recommended_actions_fallback r = recommended_actions_fallback r'"
  by (auto simp: rating_band_def recommended_actions_fallback_def split: if_splits)

lemma artifacts:
  assumes "str_int r = Inr d"
  shows "\<exists>ai. fst (process_feedback self post r t posted) = Inr ai
    \<and> length (snd (process_feedback self post r t posted)) = length posted + 3
    \<and> (call_fails self post (user_response_prompt r t) (7 / 10) 200 \<longrightarrow>
         ai_user_response ai = user_response_fallback r)
    \<and> (call_fails self post (admin_summary_prompt r t) (3 / 10) 150 \<longrightarrow>
         ai_admin_summary ai = admin_summary_fallback r)
    \<and> (call_fails self post (recommended_actions_prompt r t) (4 / 10) 250 \<longrightarrow>
         ai_recommended_actions ai = recommended_actions_fallback r)"
  using process_feedback_result [OF assms, of t self post posted]
  by (auto simp: call_fails_def isl_def)

lemma decimal_examples:
  "decimal 0 = ascii ''0''" "decimal 1 = ascii ''1''" "decimal 2 = ascii ''2''"
  "decimal 5 = ascii ''5''"
  by (simp_all add: decimal_def digits10.simps ascii_def)

lemma ascii_append: "ascii a @ ascii b = ascii (a @ b)"
  by (simp add: ascii_def)

lemma unreachable_fails:
  assumes "str_int r = Inr d"
  shows "call_fails self unreachable (user_response_prompt r t) temp n"
    "call_fails self unreachable (admin_summary_prompt r t) temp n"
    "call_fails self unreachable (recommended_actions_prompt r t) temp n"
  using assms
  by (simp_all add: call_fails_def call_api_def unreachable_def user_response_prompt_def
      admin_summary_prompt_def recommended_actions_prompt_def)

lemma process_feedback_unreachable:
  assumes "str_int r = Inr d"
  shows "fst (process_feedback self unreachable r t posted) =
     Inr \<lparr>ai_user_response = user_response_fallback r,
          ai_admin_summary = admin_summary_fallback r,
          ai_recommended_actions = recommended_actions_fallback r\<rparr>"
  using process_feedback_result [OF assms, of t self unreachable posted]
  by (auto simp: call_api_def unreachable_def)

lemma message_content_reply: "message_content (reply text) = Inr (strip text)"
  by (simp add: message_content_def reply_def ascii_def)

text \<open>
  Claim C3, as amended. For every rating from 1 to 5 and every review text,
  \<open>process_feedback\<close> returns its three texts, no exception reaching its caller, and
  posts three requests. Each text whose call of \<open>_call_api\<close> raised is a non-empty
  fallback: the one for \<open>user_response\<close> is the fixed sentence with the decimal rating
  in it; the ones for \<open>admin_summary\<close> and \<open>recommended_actions\<close> depend on nothing but
  the rating and differ between any two of the bands \<open>rating \<le> 2\<close>, \<open>rating = 3\<close>,
  \<open>rating \<ge> 4\<close>. The second run (\<open>self'\<close>, \<open>post'\<close>, \<open>r'\<close>, \<open>t'\<close>) is any other
  failing call to compare with.
\<close>

theorem process_feedback_fallbacks:
  assumes "1 \<le> r" and "r \<le> 5" and "1 \<le> r'" and "r' \<le> 5"
  shows "\<exists>ai ai'.
      fst (process_feedback self post r t posted) = Inr ai
    \<and> fst (process_feedback self' post' r' t' posted') = Inr ai'
    \<and> length (snd (process_feedback self post r t posted)) = length posted + 3
    \<and> (call_fails self post (user_response_prompt r t) (7 / 10) 200 \<longrightarrow>
         ai_user_response ai
           = ascii ''Thank you for your '' @ decimal r
             @ ascii ''-star review! We appreciate your feedback and will use it to improve our service.''
         \<and> ai_user_response ai \<noteq> []
         \<and> str_int r = Inr (decimal r)
         \<and> sublist (decimal r) (ai_user_response ai))
    \<and> (call_fails self post (admin_summary_prompt r t) (3 / 10) 150 \<longrightarrow>
         ai_admin_summary ai \<noteq> []
         \<and> (call_fails self' post' (admin_summary_prompt r' t') (3 / 10) 150 \<longrightarrow>
              (r' = r \<longrightarrow> ai_admin_summary ai' = ai_admin_summary ai)
              \<and> (rating_band r' \<noteq> rating_band r \<longrightarrow> ai_admin_summary ai' \<noteq> ai_admin_summary ai)))
    \<and> (call_fails self post (recommended_actions_prompt r t) (4 / 10) 250 \<longrightarrow>
         ai_recommended_actions ai \<noteq> []
         \<and> (call_fails self' post' (recommended_actions_prompt r' t') (4 / 10) 250 \<longrightarrow>
              (rating_band r' = rating_band r \<longrightarrow>
                 ai_recommended_actions ai' = ai_recommended_actions ai)
              \<and> (rating_band r' \<noteq> rating_band r \<longrightarrow>
                 ai_recommended_actions ai' \<noteq> ai_recommended_actions ai)))"
proof -
  have s: "str_int r = Inr (decimal r)" and s': "str_int r' = Inr (decimal r')"
    using assms by (simp_all add: str_int_rating)
  from artifacts [OF s, of self post t posted] obtain ai where ai:
    "fst (process_feedback self post r t posted) = Inr ai"
    "length (snd (process_feedback self post r t posted)) = length posted + 3"
    "call_fails self post (user_response_prompt r t) (7 / 10) 200 \<longrightarrow>
       ai_user_response ai = user_response_fallback r"
    "call_fails self post (admin_summary_prompt r t) (3 / 10) 150 \<longrightarrow>
       ai_admin_summary ai = admin_summary_fallback r"
    "call_fails self post (recommended_actions_prompt r t) (4 / 10) 250 \<longrightarrow>
       ai_recommended_actions ai = recommended_actions_fallback r"
    by blast
  from artifacts [OF s', of self' post' t' posted'] obtain ai' where ai':
    "fst (process_feedback self' post' r' t' posted') = Inr ai'"
    "call_fails self' post' (admin_summary_prompt r' t') (3 / 10) 150 \<longrightarrow>
       ai_admin_summary ai' = admin_summary_fallback r'"
    "call_fails self' post' (recommended_actions_prompt r' t') (4 / 10) 250 \<longrightarrow>
       ai_recommended_actions ai' = recommended_actions_fallback r'"
    by blast
  have u: "user_response_fallback r
      = ascii ''Thank you for your '' @ decimal r
        @ ascii ''-star review! We appreciate your feedback and will use it to improve our service.''"
    by (simp add: user_response_fallback_def)
  show ?thesis
    apply (rule exI [of _ ai], rule exI [of _ ai'])
    using ai ai' s fallbacks_nonempty [of r] user_response_fallback_contains [of r]
      admin_summary_fallback_bands [of r' r] recommended_actions_fallback_bands [of r' r]
      recommended_actions_fallback_same_band [of r' r]
    by (auto simp: u [symmetric])
qed

theorem process_feedback_fallbacks_witness:
  "(1::int) \<le> 2 \<and> (2::int) \<le> 5 \<and> (1::int) \<le> 5 \<and> (5::int) \<le> 5 \<and> (1::int) \<le> 1
   \<and> call_fails example_handler unreachable (user_response_prompt 2 example_review) (7 / 10) 200
   \<and> call_fails example_handler unreachable (admin_summary_prompt 2 example_review) (3 / 10) 150
   \<and> call_fails example_handler unreachable (recommended_actions_prompt 2 example_review)
        (4 / 10) 250
   \<and> call_fails example_handler unreachable (admin_summary_prompt 5 example_review) (3 / 10) 150
   \<and> call_fails example_handler unreachable (recommended_actions_prompt 5 example_review)
        (4 / 10) 250
   \<and> rating_band 5 \<noteq> rating_band 2
   \<and> map_sum id ai_user_response
         (fst (process_feedback example_handler unreachable 2 example_review []))
       = Inr (ascii ''Thank you for your 2-star review! We appreciate your feedback and will use it to improve our service.'')
   \<and> map_sum id ai_admin_summary
         (fst (process_feedback example_handler unreachable 2 example_review []))
       \<noteq> map_sum id ai_admin_summary
           (fst (process_feedback example_handler unreachable 5 example_review []))
   \<and> map_sum id ai_recommended_actions
         (fst (process_feedback example_handler unreachable 2 example_review []))
       \<noteq> map_sum id ai_recommended_actions
           (fst (process_feedback example_handler unreachable 5 example_review []))
   \<and> call_fails example_handler unreachable (admin_summary_prompt 2 []) (3 / 10) 150
   \<and> map_sum id ai_admin_summary (fst (process_feedback example_handler unreachable 2 [] []))
       = map_sum id ai_admin_summary
           (fst (process_feedback example_handler unreachable 2 example_review []))
   \<and> call_fails example_handler unreachable (recommended_actions_prompt 1 []) (4 / 10) 250
   \<and> rating_band 1 = rating_band 2
   \<and> map_sum id ai_recommended_actions
         (fst (process_feedback example_handler unreachable 1 [] []))
       = map_sum id ai_recommended_actions
           (fst (process_feedback example_handler unreachable 2 example_review []))"
proof -
  have s: "str_int 1 = Inr (decimal 1)" "str_int 2 = Inr (decimal 2)"
    "str_int 5 = Inr (decimal 5)"
    by (simp_all add: str_int_rating)
  note process_feedback_fallbacks [where self = example_handler and post = unreachable
      and r = 2 and t = example_review and posted = "[]" and self' = example_handler
      and post' = unreachable and r' = 5 and t' = example_review and posted' = "[]"]
    process_feedback_fallbacks [where self = example_handler and post = unreachable
      and r = 2 and t = example_review and posted = "[]" and self' = example_handler
      and post' = unreachable and r' = 2 and t' = "[]" and posted' = "[]"]
    process_feedback_fallbacks [where self = example_handler and post = unreachable
      and r = 2 and t = example_review and posted = "[]" and self' = example_handler
      and post' = unreachable and r' = 1 and t' = "[]" and posted' = "[]"]
  then show ?thesis
    by (auto simp: unreachable_fails [OF s(1)] unreachable_fails [OF s(2)]
        unreachable_fails [OF s(3)] rating_band_def decimal_examples ascii_append)
qed

text \<open>
  Claim C3 as stated fails: when only the first call raises and the endpoint answers
  the other two with an empty text, two of the three texts are empty.
\<close>

theorem process_feedback_fallbacks_counterexample:
  "(1::int) \<le> 5 \<and> (5::int) \<le> 5
   \<and> call_fails example_handler empty_replies (user_response_prompt 5 example_review) (7 / 10) 200
   \<and> map_sum id ai_admin_summary
         (fst (process_feedback example_handler empty_replies 5 example_review [])) = Inr []
   \<and> map_sum id ai_recommended_actions
         (fst (process_feedback example_handler empty_replies 5 example_review [])) = Inr []"
proof -
  have s: "str_int 5 = Inr (decimal 5)"
    by (simp add: str_int_rating)
  show ?thesis
    using process_feedback_result [OF s, of example_review example_handler empty_replies "[]"]
    by (auto simp: call_fails_def call_api_def empty_replies_def message_content_reply
        strip_def user_response_prompt_def s)
qed


section \<open>Submitting a review\<close>

lemma strip_examples:
  "strip [] = []" "length (strip (ascii ''  too bad '')) = 7"
  "strip example_review = example_review" "length example_review = 21"
  by (simp_all add: strip_def ascii_def isspace_def example_review_def)

lemma first_visit_rows: "rows (store first_visit) = []"
  by (simp add: first_visit_def create_tables_def)

lemma encodable_append [simp]: "encodable (a @ b) = (encodable a \<and> encodable b)"
  by (simp add: encodable_def)

lemma encodable_Cons [simp]: "encodable (c # s) = ((c < 55296 \<or> 57343 < c) \<and> encodable s)"
  by (simp add: encodable_def)

lemma encodable_Nil [simp]: "encodable []"
  by (simp add: encodable_def)

lemma encodable_digits10 [simp]: "encodable (digits10 n)"
proof (induction n rule: digits10.induct)
  case (1 n)
  have "n mod 10 < 55248" by (rule less_trans [OF mod_less_divisor]) simp_all
  with 1 show ?case by (subst digits10.simps) simp
qed

lemma encodable_decimal [simp]: "encodable (decimal i)"
  by (simp add: decimal_def)

lemma fallbacks_encodable [simp]:
  "encodable (user_response_fallback r)" "encodable (admin_summary_fallback r)"
  "encodable (recommended_actions_fallback r)"
  by (simp_all add: user_response_fallback_def admin_summary_fallback_def
      recommended_actions_fallback_def)

lemma submit_unreachable:
  assumes "10 \<le> length (strip t)" and "encodable t" and "int64 r"
  shows "fst (submit (Some example_key) unreachable now r t first_visit)
       = Submitted \<lparr>submission_id = 1, submitted_rating = r, review = t,
                     response = user_response_fallback r\<rparr>"
    and "fst (snd (submit (Some example_key) unreachable now r t first_visit))
       = \<lparr>store = \<lparr>rows = [\<lparr>feedback_id = 1, timestamp = now, rating = r, review_text = t,
                           user_response = Some (user_response_fallback r),
                           admin_summary = Some (admin_summary_fallback r),
                           recommended_actions = Some (recommended_actions_fallback r)\<rparr>],
                     sqlite_sequence = 1\<rparr>,
          llm_instance = Some example_handler\<rparr>"
    and "length (snd (snd (submit (Some example_key) unreachable now r t first_visit))) = 3"
proof -
  have ne: "strip t \<noteq> []" using assms(1) by auto
  have h: "get_llm_handler (Some example_key) None (Some example_key) None
      = (Inr example_handler, Some example_handler)"
    by (simp add: get_llm_handler_def LLMHandler_def example_handler_def example_key_def ascii_def)
  have k: "py_or (Some example_key) None = Some example_key"
    by (simp add: example_key_def ascii_def)
  have s: "str_int r = Inr (decimal r)"
    using assms(3) by (rule str_int_int64)
  obtain res posted where p: "process_feedback example_handler unreachable r t [] = (res, posted)"
    by (cases "process_feedback example_handler unreachable r t []")
  have res: "res = Inr \<lparr>ai_user_response = user_response_fallback r,
      ai_admin_summary = admin_summary_fallback r,
      ai_recommended_actions = recommended_actions_fallback r\<rparr>"
    using process_feedback_unreachable [OF s, of example_handler t "[]"] p by simp
  have l: "length posted = 3"
    using process_feedback_result [OF s, of t example_handler unreachable "[]"] p by auto
  have "submit (Some example_key) unreachable now r t first_visit =
     (Submitted \<lparr>submission_id = 1, submitted_rating = r, review = t,
                  response = user_response_fallback r\<rparr>,
      \<lparr>store = \<lparr>rows = [\<lparr>feedback_id = 1, timestamp = now, rating = r, review_text = t,
                           user_response = Some (user_response_fallback r),
                           admin_summary = Some (admin_summary_fallback r),
                           recommended_actions = Some (recommended_actions_fallback r)\<rparr>],
                 sqlite_sequence = 1\<rparr>,
        llm_instance = Some example_handler\<rparr>,
      posted)"
    using assms ne p res
    by (simp add: submit_def k h first_visit_def create_tables_def insert_feedback_def)
  then show "fst (submit (Some example_key) unreachable now r t first_visit)
       = Submitted \<lparr>submission_id = 1, submitted_rating = r, review = t,
                     response = user_response_fallback r\<rparr>"
    and "fst (snd (submit (Some example_key) unreachable now r t first_visit))
       = \<lparr>store = \<lparr>rows = [\<lparr>feedback_id = 1, timestamp = now, rating = r, review_text = t,
                           user_response = Some (user_response_fallback r),
                           admin_summary = Some (admin_summary_fallback r),
                           recommended_actions = Some (recommended_actions_fallback r)\<rparr>],
                     sqlite_sequence = 1\<rparr>,
          llm_instance = Some example_handler\<rparr>"
    and "length (snd (snd (submit (Some example_key) unreachable now r t first_visit))) = 3"
    using l by simp_all
qed

text \<open>
  Claim C4. A review text whose trimmed length is below 10 (the empty text included)
  ends the submission with a validation message, whatever the rating, the key and
  the endpoint: no request is posted, and the store and the handler instance are as
  before.
\<close>

theorem short_review_rejected:
  assumes "length (strip review_text') < 10"
  shows "\<exists>message. submit getenv post now rating' review_text' w = (Validation_error message, w, [])"
  using assms by (simp add: submit_def)

theorem short_review_rejected_witness:
  "length (strip (ascii ''  too bad '')) < 10
   \<and> (\<exists>message. submit (Some example_key) unreachable 100 5 (ascii ''  too bad '')
          first_visit = (Validation_error message, first_visit, []))
   \<and> length (strip []) < 10
   \<and> (\<exists>message. submit (Some example_key) unreachable 100 5 [] first_visit
          = (Validation_error message, first_visit, []))"
  using short_review_rejected [where review_text' = "ascii ''  too bad ''"
      and getenv = "Some example_key" and post = unreachable and now = 100
      and rating' = 5 and w = first_visit]
    short_review_rejected [where review_text' = "[]"
      and getenv = "Some example_key" and post = unreachable and now = 100
      and rating' = 5 and w = first_visit]
  by (simp add: strip_examples)


lemma description: "1 \<le> r \<Longrightarrow> r \<le> 5 \<Longrightarrow> \<exists>d. map_of rating_descriptions r = Some d"
proof -
  assume "1 \<le> r" "r \<le> 5"
  then have "r = 1 \<or> r = 2 \<or> r = 3 \<or> r = 4 \<or> r = 5" by arith
  then show ?thesis by (auto simp: rating_descriptions_def)
qed


lemma repeat_ok:
  "int64 n \<Longrightarrow> nat n \<le> memory \<Longrightarrow> repeat memory [c] n = Inr (replicate (nat n) c)"
  by (auto simp: repeat_def)

text \<open>The ratings 1 to 5, which the slider offers, reach the submission block.\<close>

lemma user_dashboard_in_range:
  assumes "1 \<le> r" and "r \<le> 5" and "5 \<le> memory"
  shows "user_dashboard memory getenv post now r t w = submit getenv post now r t w"
proof -
  have a: "repeat memory [11088] r = Inr (replicate (nat r) 11088)"
    using assms by (intro repeat_ok) (simp_all add: int64_def)
  have b: "repeat memory [9734] (5 - r) = Inr (replicate (nat (5 - r)) 9734)"
    using assms by (intro repeat_ok) (simp_all add: int64_def)
  obtain d where d: "map_of rating_descriptions r = Some d"
    using description [OF assms(1,2)] by blast
  have "nat r + nat (5 - r) = 5"
    using assms by simp
  then show ?thesis
    using assms a b d by (simp add: user_dashboard_def form_def)
qed





section \<open>Generated columns of stored records\<close>

lemma populated_submit:
  assumes "\<forall>r \<in> set (rows (store w)). populated r"
  shows "\<forall>r \<in> set (rows (store (fst (snd (submit getenv post now r' t w))))). populated r"
  using assms
  by (auto simp: submit_def insert_feedback_def Let_def populated_def
      split: if_splits option.splits sum.splits prod.splits)

lemma populated_act:
  assumes "\<forall>r \<in> set (rows (store w)). populated r"
  shows "\<forall>r \<in> set (rows (store (act w a))). populated r"
proof (cases a)
  case (Submit getenv post now r t)
  then show ?thesis using populated_submit [OF assms] by simp
next
  case (Delete_feedback i)
  then show ?thesis using assms by (simp add: delete_feedback_def Let_def)
next
  case Clear_all_data
  then show ?thesis by (simp add: clear_all_data_def)
qed

lemma session_Nil: "session [] = first_visit"
  by (simp add: session_def first_visit_def)

lemma session_snoc: "session (as @ [a]) = act (session as) a"
  by (simp add: session_def)

lemma populated_session: "\<forall>r \<in> set (rows (store (session as))). populated r"
  by (induction as rule: rev_induct)
    (simp_all add: session_Nil session_snoc first_visit_rows populated_act)

lemma session_example:
  "session [Submit (Some example_key) unreachable 100 2 example_review, Delete_feedback 9]
     = \<lparr>store = \<lparr>rows = [\<lparr>feedback_id = 1, timestamp = 100, rating = 2,
                            review_text = example_review,
                            user_response = Some (user_response_fallback 2),
                            admin_summary = Some (admin_summary_fallback 2),
                            recommended_actions = Some (recommended_actions_fallback 2)\<rparr>],
                   sqlite_sequence = 1\<rparr>,
        llm_instance = Some example_handler\<rparr>"
proof -
  have "session [Submit (Some example_key) unreachable 100 2 example_review, Delete_feedback 9]
      = act (act first_visit (Submit (Some example_key) unreachable 100 2 example_review))
          (Delete_feedback 9)"
    by (simp add: session_def first_visit_def)
  then show ?thesis
    by (simp add: submit_unreachable strip_examples int64_def delete_feedback_def)
qed

text \<open>
  Claim C2, as amended. After any sequence of submissions, deletions of one record
  and clearings, made through the two pages, every stored record has all three
  generated columns filled. The store by itself does not ensure this:
  \<open>insert_feedback\<close> takes the three texts as optional arguments and the columns are
  nullable.
\<close>

theorem submitted_records_populated:
  "\<forall>r \<in> set (rows (store (session as))).
     user_response r \<noteq> None \<and> admin_summary r \<noteq> None \<and> recommended_actions r \<noteq> None"
  using populated_session [of as] by (simp add: populated_def)

theorem submitted_records_populated_witness:
  "map feedback_id (rows (store (session
       [Submit (Some example_key) unreachable 100 2 example_review, Delete_feedback 9]))) = [1]
   \<and> map (\<lambda>r. user_response r \<noteq> None \<and> admin_summary r \<noteq> None
              \<and> recommended_actions r \<noteq> None)
         (rows (store (session
           [Submit (Some example_key) unreachable 100 2 example_review, Delete_feedback 9])))
       = [True]"
  using submitted_records_populated
    [of "[Submit (Some example_key) unreachable 100 2 example_review, Delete_feedback 9]"]
  by (simp add: session_example)

text \<open>
  Claim C2 as stated fails on the store's own operations: \<open>insert_feedback\<close> called
  without the three texts stores a record whose generated columns are \<open>NULL\<close>.
\<close>

theorem submitted_records_populated_counterexample:
  "insert_feedback 100 5 example_review None None None create_tables
     = Inr (1, \<lparr>rows = [\<lparr>feedback_id = 1, timestamp = 100, rating = 5,
                          review_text = example_review, user_response = None,
                          admin_summary = None, recommended_actions = None\<rparr>],
                sqlite_sequence = 1\<rparr>)
   \<and> map user_response (rows (run example_ops)) = [None, Some (ascii ''Thanks''), None]
   \<and> map admin_summary (rows (run example_ops)) = [None, None, None]"
  by (simp add: insert_feedback_def int64_def create_tables_def run_example_ops)

end
